theory Spec2Isabelle
  imports Main "HOL-Library.Word"
begin

section \<open>The SQLite store of app.py\<close>

text \<open>
  The three tables created by \<open>setup_database\<close>. A table with a primary key is a map
  from the key to the remaining columns: \<open>users\<close> is keyed by \<open>username\<close>, \<open>progress\<close>
  by the pair \<open>(username, question_id)\<close>. The \<open>questions\<close> table is the list of its rows,
  because the scheduler enumerates it. Strings are UTF-8 byte lists. A Python integer is
  an \<open>int\<close>. An INTEGER column holds a signed 64-bit value: it is a 64-bit word, read as
  the Python integer \<open>sint\<close> of it. Question identifiers come from the INTEGER PRIMARY
  KEY column \<open>questions.id\<close> and have that type throughout.
\<close>

type_synonym sqlite_integer = "64 word"

record user_row =
  password_hash :: string
  role :: string

record question_row =
  q_id :: sqlite_integer
  owner_username :: string
  enunciado :: string
  opciones :: string
  correcta :: string
  retroalimentacion :: string
  tag_categoria :: "string option"
  tag_tema :: "string option"

record progress_row =
  due_date :: int
  interval :: sqlite_integer
  aciertos :: sqlite_integer
  fallos :: sqlite_integer

record db =
  users :: "string \<rightharpoonup> user_row"
  questions :: "question_row list"
  progress :: "(string \<times> sqlite_integer) \<rightharpoonup> progress_row"

datatype py_error = OverflowError | IntegrityError

text \<open>
  Binding a Python integer to a statement parameter: sqlite3 raises OverflowError
  ("Python int too large to convert to SQLite INTEGER") when the value is outside the
  signed 64-bit range, and the statement is not executed.
\<close>

definition sqlite_int :: "int \<Rightarrow> bool" where
  "sqlite_int v \<longleftrightarrow> - (2 ^ 63) \<le> v \<and> v < 2 ^ 63"

definition sqlite_bind :: "int \<Rightarrow> py_error + sqlite_integer" where
  "sqlite_bind v = (if sqlite_int v then Inr (word_of_int v) else Inl OverflowError)"

text \<open>
  \<open>get_db_conn\<close>: \<open>sqlite3.connect(DB_FILE)\<close> followed by setting \<open>row_factory\<close>.
  A new SQLite connection has \<open>PRAGMA foreign_keys\<close> off, and no statement of app.py
  turns it on, so every connection the program uses has foreign-key enforcement off.
\<close>

record conn =
  foreign_keys :: bool

definition get_db_conn :: conn where
  "get_db_conn = \<lparr>foreign_keys = False\<rparr>"

subsection \<open>Calendar dates\<close>

text \<open>
  A \<open>datetime.date\<close> is modelled by its proleptic Gregorian ordinal (\<open>date.toordinal()\<close>):
  \<open>date.min\<close> is day 1 and \<open>date.max\<close>, 9999-12-31, is day 3652059. The ISO text that
  sqlite3 stores for a date orders as the ordinal does. \<open>datetime.timedelta(days=n)\<close> raises
  OverflowError when \<open>n\<close> exceeds 999999999 in magnitude, and adding a timedelta to a date
  raises OverflowError when the result leaves \<open>date.min .. date.max\<close>.
\<close>

definition date_min :: int where
  "date_min = 1"

definition date_max :: int where
  "date_max = 3652059"

definition is_date :: "int \<Rightarrow> bool" where
  "is_date t \<longleftrightarrow> date_min \<le> t \<and> t \<le> date_max"

definition timedelta :: "int \<Rightarrow> py_error + int" where
  "timedelta days =
     (if - 999999999 \<le> days \<and> days \<le> 999999999 then Inr days else Inl OverflowError)"

definition date_add :: "int \<Rightarrow> int \<Rightarrow> py_error + int" where
  "date_add t delta = (if is_date (t + delta) then Inr (t + delta) else Inl OverflowError)"

subsection \<open>The difficulty strings\<close>

text \<open>The three literals compared in \<open>update_srs\<close>, in UTF-8: "f\'acil", "medio", "dif\'icil".\<close>

definition facil :: string where
  "facil = ''f'' @ [CHR 0xC3, CHR 0xA1] @ ''cil''"

definition medio :: string where
  "medio = ''medio''"

definition dificil :: string where
  "dificil = ''dif'' @ [CHR 0xC3, CHR 0xAD] @ ''cil''"

section \<open>The review updater: \<open>update_srs\<close>\<close>

text \<open>\<open>SELECT * FROM progress WHERE username = ? AND question_id = ?\<close>, then \<open>fetchone\<close>.\<close>

definition sql_select_progress ::
    "db \<Rightarrow> string \<Rightarrow> sqlite_integer \<Rightarrow> progress_row option" where
  "sql_select_progress d username question_id = progress d (username, question_id)"

text \<open>
  Lines 295 to 298: the interval and the two counts of the row that was read, or
  \<open>1, 0, 0\<close> when there is none.
\<close>

definition loaded_state :: "db \<Rightarrow> string \<Rightarrow> sqlite_integer \<Rightarrow> int \<times> int \<times> int" where
  "loaded_state d username question_id =
     (case sql_select_progress d username question_id of
        Some p \<Rightarrow> (sint (interval p), sint (aciertos p), sint (fallos p))
      | None \<Rightarrow> (1, 0, 0))"

text \<open>
  \<open>INSERT INTO progress ... ON CONFLICT(username, question_id) DO UPDATE SET\<close> the four
  other columns, with the parameters \<open>(username, question_id, new_due_date, interval,
  aciertos, fallos)\<close>. The three Python integers are bound first; then the row of the key
  is written, whether or not one was there. With foreign-key enforcement on, SQLite
  refuses a row whose user or question does not exist.
\<close>

definition sql_upsert_progress ::
    "conn \<Rightarrow> db \<Rightarrow> string \<Rightarrow> sqlite_integer \<Rightarrow> int \<Rightarrow> int \<Rightarrow> int \<Rightarrow> int \<Rightarrow> py_error + db" where
  "sql_upsert_progress c d username question_id new_due_date interval1 aciertos1 fallos1 =
     (case sqlite_bind interval1 of
        Inl e \<Rightarrow> Inl e
      | Inr iv \<Rightarrow>
          (case sqlite_bind aciertos1 of
             Inl e \<Rightarrow> Inl e
           | Inr ac \<Rightarrow>
               (case sqlite_bind fallos1 of
                  Inl e \<Rightarrow> Inl e
                | Inr fa \<Rightarrow>
                    (if foreign_keys c \<and>
                        (users d username = None \<or>
                         question_id \<notin> q_id ` set (questions d))
                     then Inl IntegrityError
                     else Inr (d\<lparr>progress := (progress d)((username, question_id) \<mapsto>
                            \<lparr>due_date = new_due_date, interval = iv,
                             aciertos = ac, fallos = fa\<rparr>)\<rparr>)))))"

text \<open>
  \<open>update_srs(username, question_id, difficulty)\<close>. The store and the value of
  \<open>datetime.date.today()\<close> are arguments. The result is the raised error, or the pair of
  the value the Python function returns and the store after \<open>commit\<close>. The function has no
  \<open>return\<close> statement, so the returned value is \<open>None\<close>. The \<open>if/elif\<close> chain has no
  \<open>else\<close>: any other difficulty leaves the three values as loaded.
\<close>

definition update_srs ::
    "db \<Rightarrow> int \<Rightarrow> string \<Rightarrow> sqlite_integer \<Rightarrow> string \<Rightarrow>
       py_error + (progress_row option \<times> db)" where
  "update_srs d today username question_id difficulty =
     (let c = get_db_conn;
          (interval0, aciertos0, fallos0) = loaded_state d username question_id;
          (interval1, aciertos1, fallos1) =
            (if difficulty = facil then (interval0 * 2 + 7, aciertos0 + 1, fallos0)
             else if difficulty = medio then (interval0 + 3, aciertos0 + 1, fallos0)
             else if difficulty = dificil then (1, aciertos0, fallos0 + 1)
             else (interval0, aciertos0, fallos0))
      in case timedelta interval1 of
           Inl e \<Rightarrow> Inl e
         | Inr delta \<Rightarrow>
             (case date_add today delta of
                Inl e \<Rightarrow> Inl e
              | Inr new_due_date \<Rightarrow>
                  (case sql_upsert_progress c d username question_id
                          new_due_date interval1 aciertos1 fallos1 of
                     Inl e \<Rightarrow> Inl e
                   | Inr d' \<Rightarrow> Inr (None, d'))))"

section \<open>The scheduler: \<open>get_next_question_for_user\<close>\<close>

text \<open>
  \<open>ORDER BY RANDOM() LIMIT 1\<close> followed by \<open>fetchone\<close>: no row when the query has none,
  otherwise one of its rows, the one the random sort keys put first. The number \<open>r\<close> is the
  outcome of that draw; every row is chosen by some \<open>r\<close>.
\<close>

definition fetchone_random :: "nat \<Rightarrow> 'a list \<Rightarrow> 'a option" where
  "fetchone_random r rows = (if rows = [] then None else Some (rows ! (r mod length rows)))"

text \<open>\<open>SELECT id FROM questions\<close>.\<close>

definition sql_select_all_ids :: "db \<Rightarrow> sqlite_integer list" where
  "sql_select_all_ids d = map q_id (questions d)"

text \<open>
  \<open>SELECT q.id FROM questions q JOIN progress p ON q.id = p.question_id
  WHERE p.username = ? AND p.due_date <= ?\<close>. The key of \<open>progress\<close> gives at most one row
  per question for the user.
\<close>

definition sql_select_due_ids :: "db \<Rightarrow> string \<Rightarrow> int \<Rightarrow> sqlite_integer list" where
  "sql_select_due_ids d username today =
     map q_id (filter (\<lambda>q. case progress d (username, q_id q) of
                              Some p \<Rightarrow> due_date p \<le> today
                            | None \<Rightarrow> False) (questions d))"

text \<open>
  \<open>SELECT q.id FROM questions q LEFT JOIN progress p ON q.id = p.question_id AND
  p.username = ? WHERE p.question_id IS NULL\<close>.
\<close>

definition sql_select_new_ids :: "db \<Rightarrow> string \<Rightarrow> sqlite_integer list" where
  "sql_select_new_ids d username =
     map q_id (filter (\<lambda>q. progress d (username, q_id q) = None) (questions d))"

text \<open>
  \<open>get_next_question_for_user(username, practice_mode)\<close>. The store, the current date and
  the outcomes of the random draws (of the first and of the second query executed) are
  arguments. The result is the returned identifier, or \<open>None\<close>, with the store as the call
  leaves it: the function executes SELECT statements only and never commits.
\<close>

definition get_next_question_for_user ::
    "db \<Rightarrow> int \<Rightarrow> nat \<times> nat \<Rightarrow> string \<Rightarrow> bool \<Rightarrow> sqlite_integer option \<times> db" where
  "get_next_question_for_user d today rnd username practice_mode =
     (if practice_mode then
        (case fetchone_random (fst rnd) (sql_select_all_ids d) of
           Some practice_question \<Rightarrow> (Some practice_question, d)
         | None \<Rightarrow> (None, d))
      else
        (case fetchone_random (fst rnd) (sql_select_due_ids d username today) of
           Some due_question \<Rightarrow> (Some due_question, d)
         | None \<Rightarrow>
             (case fetchone_random (snd rnd) (sql_select_new_ids d username) of
                Some new_question \<Rightarrow> (Some new_question, d)
              | None \<Rightarrow> (None, d))))"

text \<open>
  The words of the specification. Due: the user has a review record for the identifier
  \<open>q\<close> whose due date is on or before the current date. Unseen: \<open>q\<close> is a question and
  the user has no review record for it.
\<close>

definition is_due :: "db \<Rightarrow> string \<Rightarrow> int \<Rightarrow> sqlite_integer \<Rightarrow> bool" where
  "is_due d username today q \<longleftrightarrow>
     (case progress d (username, q) of Some p \<Rightarrow> due_date p \<le> today | None \<Rightarrow> False)"

definition is_unseen :: "db \<Rightarrow> string \<Rightarrow> sqlite_integer \<Rightarrow> bool" where
  "is_unseen d username q \<longleftrightarrow>
     q \<in> q_id ` set (questions d) \<and> progress d (username, q) = None"

section \<open>Deleting questions and users\<close>

text \<open>
  \<open>DELETE FROM questions WHERE id = ?\<close>. The \<open>progress\<close> table declares
  \<open>question_id ... REFERENCES questions(id) ON DELETE CASCADE\<close>; SQLite carries the cascade
  out only on a connection with foreign-key enforcement on.
\<close>

definition sql_delete_question :: "conn \<Rightarrow> db \<Rightarrow> sqlite_integer \<Rightarrow> db" where
  "sql_delete_question c d question_id =
     (let d' = d\<lparr>questions := filter (\<lambda>q. q_id q \<noteq> question_id) (questions d)\<rparr>
      in if foreign_keys c
         then d'\<lparr>progress := (\<lambda>k. if snd k = question_id then None else progress d k)\<rparr>
         else d')"

text \<open>
  The "Eliminar" button of \<open>show_manage_questions_page\<close> (lines 510 to 512): the one
  DELETE statement on the connection of \<open>get_db_conn\<close>, then \<open>commit\<close>.
\<close>

definition manage_questions_eliminar :: "db \<Rightarrow> sqlite_integer \<Rightarrow> db" where
  "manage_questions_eliminar d question_id = sql_delete_question get_db_conn d question_id"

text \<open>
  \<open>delete_user_from_db(username)\<close>, the sibling path: it deletes the user's progress rows
  with a statement of its own before deleting the user. The result is the success flag
  and the store.
\<close>

definition delete_user_from_db :: "db \<Rightarrow> string \<Rightarrow> bool \<times> db" where
  "delete_user_from_db d username =
     (if username = ''admin'' then (False, d)
      else (True, d\<lparr>progress := (\<lambda>k. if fst k = username then None else progress d k),
                     users := (users d)(username := None)\<rparr>))"

section \<open>Repeated answers\<close>

text \<open>
  The "F\'acil" button of \<open>show_evaluation_page\<close> calls
  \<open>update_srs(current_user, id, "f\'acil")\<close>. \<open>answer_facil n\<close> is \<open>n\<close> such calls in a row
  for one user and question on one day, stopping at the first that raises.
\<close>

fun answer_facil ::
    "nat \<Rightarrow> int \<Rightarrow> string \<Rightarrow> sqlite_integer \<Rightarrow> db \<Rightarrow> py_error + db" where
  "answer_facil 0 today username question_id d = Inr d"
| "answer_facil (Suc n) today username question_id d =
     (case update_srs d today username question_id facil of
        Inl e \<Rightarrow> Inl e
      | Inr (ret, d') \<Rightarrow> answer_facil n today username question_id d')"

section \<open>Example stores\<close>

definition question1 :: question_row where
  "question1 = \<lparr>q_id = 1, owner_username = ''admin'', enunciado = ''2 + 2'',
     opciones = ''3|4|5|6'', correcta = ''4'', retroalimentacion = ''suma'',
     tag_categoria = Some ''Otra'', tag_tema = Some ''aritmetica''\<rparr>"

definition admin_row :: user_row where
  "admin_row = \<lparr>password_hash = ''hash'', role = ''admin''\<rparr>"

text \<open>One user, one question, no progress row.\<close>

definition db_fresh :: db where
  "db_fresh = \<lparr>users = [''admin'' \<mapsto> admin_row], questions = [question1],
     progress = Map.empty\<rparr>"

definition ana_row :: user_row where
  "ana_row = \<lparr>password_hash = ''hash2'', role = ''user''\<rparr>"

text \<open>
  User ana answered question 1 with "f\'acil" once, on day 739923 (2026-11-03):
  interval 9, due on day 739932.
\<close>

definition db_seen :: db where
  "db_seen = \<lparr>users = [''admin'' \<mapsto> admin_row, ''ana'' \<mapsto> ana_row],
     questions = [question1],
     progress = [(''ana'', 1) \<mapsto>
       \<lparr>due_date = 739932, interval = 9, aciertos = 1, fallos = 0\<rparr>]\<rparr>"

text \<open>Two users and one question; nobody has answered it.\<close>

definition db_unanswered :: db where
  "db_unanswered = \<lparr>users = [''admin'' \<mapsto> admin_row, ''ana'' \<mapsto> ana_row],
     questions = [question1], progress = Map.empty\<rparr>"

text \<open>
  The intervals after \<open>n\<close> consecutive "f\'acil" answers from the default state are
  \<open>8 * 2 ^ n - 7\<close>: 1048569 after seventeen and 2097145 after eighteen. The two stores hold
  these states for ana and question 1, last answered on day 739923.
\<close>

definition db_17 :: db where
  "db_17 = \<lparr>users = [''admin'' \<mapsto> admin_row, ''ana'' \<mapsto> ana_row],
     questions = [question1],
     progress = [(''ana'', 1) \<mapsto>
       \<lparr>due_date = 1788492, interval = 1048569, aciertos = 17, fallos = 0\<rparr>]\<rparr>"

definition db_18 :: db where
  "db_18 = \<lparr>users = [''admin'' \<mapsto> admin_row, ''ana'' \<mapsto> ana_row],
     questions = [question1],
     progress = [(''ana'', 1) \<mapsto>
       \<lparr>due_date = 2837068, interval = 2097145, aciertos = 18, fallos = 0\<rparr>]\<rparr>"

definition question2 :: question_row where
  "question2 = \<lparr>q_id = 2, owner_username = ''ana'', enunciado = ''3 * 3'',
     opciones = ''6|7|8|9'', correcta = ''9'', retroalimentacion = ''producto'',
     tag_categoria = Some ''Otra'', tag_tema = Some ''aritmetica''\<rparr>"

text \<open>As \<open>db_seen\<close>, with a second question that ana has not answered.\<close>

definition db_two :: db where
  "db_two = \<lparr>users = [''admin'' \<mapsto> admin_row, ''ana'' \<mapsto> ana_row],
     questions = [question1, question2],
     progress = [(''ana'', 1) \<mapsto>
       \<lparr>due_date = 739932, interval = 9, aciertos = 1, fallos = 0\<rparr>]\<rparr>"

text \<open>No question at all.\<close>

definition db_empty :: db where
  "db_empty = \<lparr>users = [''admin'' \<mapsto> admin_row], questions = [], progress = Map.empty\<rparr>"

text \<open>
  Ana's row for question 1 holds the largest count an INTEGER column can hold,
  \<open>2 ^ 63 - 1\<close> correct answers.
\<close>

definition db_maxcount :: db where
  "db_maxcount = \<lparr>users = [''admin'' \<mapsto> admin_row, ''ana'' \<mapsto> ana_row],
     questions = [question1],
     progress = [(''ana'', 1) \<mapsto>
       \<lparr>due_date = 739932, interval = 9, aciertos = 9223372036854775807,
        fallos = 0\<rparr>]\<rparr>"

section \<open>Properties of the review updater\<close>

lemma difficulty_distinct:
  "facil \<noteq> medio" "facil \<noteq> dificil" "medio \<noteq> dificil"
  by (simp_all add: facil_def medio_def dificil_def)

lemma sqlite_int_sint: "sqlite_int (sint (w :: sqlite_integer))"
  using sint_ge [of w] sint_lt [of w] by (simp add: sqlite_int_def)

lemma sint_bound: "sqlite_int v \<Longrightarrow> sint (word_of_int v :: sqlite_integer) = v"
  by (simp add: sqlite_int_def sint_sbintrunc' signed_take_bit_int_eq_self)

lemma loaded_state_sqlite_int:
  assumes "loaded_state d u q = (i, c, f)"
  shows "sqlite_int i" and "sqlite_int c" and "sqlite_int f"
  using assms sqlite_int_sint
  by (auto simp: loaded_state_def sqlite_int_def split: option.splits)

lemma loaded_state_written:
  assumes "sqlite_int i" and "sqlite_int c" and "sqlite_int f"
  shows "loaded_state (d\<lparr>progress := (progress d)((u, q) \<mapsto>
           \<lparr>due_date = dd, interval = word_of_int i, aciertos = word_of_int c,
            fallos = word_of_int f\<rparr>)\<rparr>) u q = (i, c, f)"
  using assms by (simp add: loaded_state_def sql_select_progress_def sint_bound)

lemma is_date_sqlite_int: "is_date today \<Longrightarrow> is_date (today + i) \<Longrightarrow> sqlite_int i"
  by (simp add: is_date_def date_min_def date_max_def sqlite_int_def)

lemma update_srs_ok:
  assumes "is_date today"
    and "loaded_state d u q = (i, c, f)"
    and "(if difficulty = facil then (i * 2 + 7, c + 1, f)
          else if difficulty = medio then (i + 3, c + 1, f)
          else if difficulty = dificil then (1, c, f + 1)
          else (i, c, f)) = (i', c', f')"
    and "is_date (today + i')"
    and "sqlite_int c'" and "sqlite_int f'"
  shows "update_srs d today u q difficulty =
           Inr (None, d\<lparr>progress := (progress d)((u, q) \<mapsto>
                  \<lparr>due_date = today + i', interval = word_of_int i',
                   aciertos = word_of_int c', fallos = word_of_int f'\<rparr>)\<rparr>)"
proof -
  from assms(1,4) have "- 999999999 \<le> i' \<and> i' \<le> 999999999"
    by (simp add: is_date_def date_min_def date_max_def)
  then have td: "timedelta i' = Inr i'"
    by (simp add: timedelta_def)
  from assms(4) have da: "date_add today i' = Inr (today + i')"
    by (simp add: date_add_def)
  from assms(1,4) have bi: "sqlite_bind i' = Inr (word_of_int i')"
    by (simp add: sqlite_bind_def is_date_sqlite_int)
  from assms(5,6) have bc: "sqlite_bind c' = Inr (word_of_int c')"
    and bf: "sqlite_bind f' = Inr (word_of_int f')"
    by (simp_all add: sqlite_bind_def)
  show ?thesis
    unfolding update_srs_def Let_def assms(2) prod.case assms(3)
    by (simp add: td da bi bc bf sql_upsert_progress_def get_db_conn_def)
qed

lemma update_srs_overflow:
  assumes "loaded_state d u q = (i, c, f)"
    and "(if difficulty = facil then (i * 2 + 7, c + 1, f)
          else if difficulty = medio then (i + 3, c + 1, f)
          else if difficulty = dificil then (1, c, f + 1)
          else (i, c, f)) = (i', c', f')"
    and "\<not> is_date (today + i') \<or> \<not> sqlite_int c' \<or> \<not> sqlite_int f'"
  shows "update_srs d today u q difficulty = Inl OverflowError"
  unfolding update_srs_def Let_def assms(1) prod.case assms(2)
  using assms(3)
  by (auto simp: timedelta_def date_add_def sql_upsert_progress_def sqlite_bind_def
        split: sum.splits)

lemma db_17_reachable: "answer_facil 17 739923 ''ana'' 1 db_unanswered = Inr db_17"
  by (simp add: eval_nat_numeral update_srs_def Let_def loaded_state_def
        sql_select_progress_def sql_upsert_progress_def sqlite_bind_def sqlite_int_def
        get_db_conn_def timedelta_def date_add_def is_date_def date_min_def date_max_def
        db_17_def db_unanswered_def)

lemma db_18_reachable: "answer_facil 18 739923 ''ana'' 1 db_unanswered = Inr db_18"
  by (simp add: eval_nat_numeral update_srs_def Let_def loaded_state_def
        sql_select_progress_def sql_upsert_progress_def sqlite_bind_def sqlite_int_def
        get_db_conn_def timedelta_def date_add_def is_date_def date_min_def date_max_def
        db_18_def db_unanswered_def)

lemma nineteenth_facil_raises:
  "answer_facil 19 739923 ''ana'' 1 db_unanswered = Inl OverflowError"
  by (simp add: eval_nat_numeral update_srs_def Let_def loaded_state_def
        sql_select_progress_def sql_upsert_progress_def sqlite_bind_def sqlite_int_def
        get_db_conn_def timedelta_def date_add_def is_date_def date_min_def date_max_def
        db_unanswered_def)

lemma update_srs_count_overflow:
  "loaded_state db_maxcount ''ana'' 1 = (9, 9223372036854775807, 0)
   \<and> update_srs db_maxcount 739932 ''ana'' 1 facil = Inl OverflowError
   \<and> update_srs db_maxcount 739932 ''ana'' 1 medio = Inl OverflowError"
proof -
  have l: "loaded_state db_maxcount ''ana'' 1 = (9, 9223372036854775807, 0)"
    by (simp add: loaded_state_def sql_select_progress_def db_maxcount_def)
  have "update_srs db_maxcount 739932 ''ana'' 1 facil = Inl OverflowError"
    by (rule update_srs_overflow [OF l,
          where i' = 25 and c' = 9223372036854775808 and f' = 0])
       (simp_all add: sqlite_int_def)
  moreover have "update_srs db_maxcount 739932 ''ana'' 1 medio = Inl OverflowError"
    by (rule update_srs_overflow [OF l,
          where i' = 12 and c' = 9223372036854775808 and f' = 0])
       (simp_all add: sqlite_int_def difficulty_distinct[symmetric])
  ultimately show ?thesis
    using l by simp
qed

text \<open>
  Claim C1, as amended. On a current date \<open>today\<close>, from the loaded or defaulted state
  \<open>(i, c, f)\<close> of the pair, \<open>update_srs\<close> writes for "f\'acil" the interval \<open>i * 2 + 7\<close> with
  the correct count \<open>c + 1\<close>, for "medio" the interval \<open>i + 3\<close> with the correct count
  \<open>c + 1\<close>, for "dif\'icil" the interval 1 with the incorrect count \<open>f + 1\<close>, the other count
  unchanged, and the due date \<open>today\<close> plus the new interval. Each case holds whenever that
  due date is a representable date, that is not after 9999-12-31, and the incremented
  count is below \<open>2 ^ 63\<close>, the end of the range of an INTEGER column. The written row
  reads back as exactly these numbers. This holds for every interval, so for every
  \<open>i \<ge> 1\<close>.
\<close>

theorem update_srs_table:
  assumes "is_date today" and "loaded_state d u q = (i, c, f)"
  shows "(is_date (today + (i * 2 + 7)) \<and> c + 1 < 2 ^ 63 \<longrightarrow>
            (let d' = d\<lparr>progress := (progress d)((u, q) \<mapsto>
                \<lparr>due_date = today + (i * 2 + 7), interval = word_of_int (i * 2 + 7),
                 aciertos = word_of_int (c + 1), fallos = word_of_int f\<rparr>)\<rparr>
             in update_srs d today u q facil = Inr (None, d')
                \<and> loaded_state d' u q = (i * 2 + 7, c + 1, f)))
       \<and> (is_date (today + (i + 3)) \<and> c + 1 < 2 ^ 63 \<longrightarrow>
            (let d' = d\<lparr>progress := (progress d)((u, q) \<mapsto>
                \<lparr>due_date = today + (i + 3), interval = word_of_int (i + 3),
                 aciertos = word_of_int (c + 1), fallos = word_of_int f\<rparr>)\<rparr>
             in update_srs d today u q medio = Inr (None, d')
                \<and> loaded_state d' u q = (i + 3, c + 1, f)))
       \<and> (is_date (today + 1) \<and> f + 1 < 2 ^ 63 \<longrightarrow>
            (let d' = d\<lparr>progress := (progress d)((u, q) \<mapsto>
                \<lparr>due_date = today + 1, interval = word_of_int 1,
                 aciertos = word_of_int c, fallos = word_of_int (f + 1)\<rparr>)\<rparr>
             in update_srs d today u q dificil = Inr (None, d')
                \<and> loaded_state d' u q = (1, c, f + 1)))"
proof -
  note r = loaded_state_sqlite_int [OF assms(2)]
  have easy: "update_srs d today u q facil =
        Inr (None, d\<lparr>progress := (progress d)((u, q) \<mapsto>
          \<lparr>due_date = today + (i * 2 + 7), interval = word_of_int (i * 2 + 7),
           aciertos = word_of_int (c + 1), fallos = word_of_int f\<rparr>)\<rparr>)
      \<and> loaded_state (d\<lparr>progress := (progress d)((u, q) \<mapsto>
          \<lparr>due_date = today + (i * 2 + 7), interval = word_of_int (i * 2 + 7),
           aciertos = word_of_int (c + 1), fallos = word_of_int f\<rparr>)\<rparr>) u q =
          (i * 2 + 7, c + 1, f)"
    if h: "is_date (today + (i * 2 + 7))" "c + 1 < 2 ^ 63"
  proof -
    from r(2) h(2) have c1: "sqlite_int (c + 1)"
      by (simp add: sqlite_int_def)
    from assms(1) h(1) have i1: "sqlite_int (i * 2 + 7)"
      by (rule is_date_sqlite_int)
    have "update_srs d today u q facil =
        Inr (None, d\<lparr>progress := (progress d)((u, q) \<mapsto>
          \<lparr>due_date = today + (i * 2 + 7), interval = word_of_int (i * 2 + 7),
           aciertos = word_of_int (c + 1), fallos = word_of_int f\<rparr>)\<rparr>)"
      using h(1) c1 r(3) by (intro update_srs_ok [OF assms]) simp_all
    with loaded_state_written [OF i1 c1 r(3)] show ?thesis
      by simp
  qed
  have medium: "update_srs d today u q medio =
        Inr (None, d\<lparr>progress := (progress d)((u, q) \<mapsto>
          \<lparr>due_date = today + (i + 3), interval = word_of_int (i + 3),
           aciertos = word_of_int (c + 1), fallos = word_of_int f\<rparr>)\<rparr>)
      \<and> loaded_state (d\<lparr>progress := (progress d)((u, q) \<mapsto>
          \<lparr>due_date = today + (i + 3), interval = word_of_int (i + 3),
           aciertos = word_of_int (c + 1), fallos = word_of_int f\<rparr>)\<rparr>) u q =
          (i + 3, c + 1, f)"
    if h: "is_date (today + (i + 3))" "c + 1 < 2 ^ 63"
  proof -
    from r(2) h(2) have c1: "sqlite_int (c + 1)"
      by (simp add: sqlite_int_def)
    from assms(1) h(1) have i1: "sqlite_int (i + 3)"
      by (rule is_date_sqlite_int)
    have "update_srs d today u q medio =
        Inr (None, d\<lparr>progress := (progress d)((u, q) \<mapsto>
          \<lparr>due_date = today + (i + 3), interval = word_of_int (i + 3),
           aciertos = word_of_int (c + 1), fallos = word_of_int f\<rparr>)\<rparr>)"
      using h(1) c1 r(3)
      by (intro update_srs_ok [OF assms]) (simp_all add: difficulty_distinct[symmetric])
    with loaded_state_written [OF i1 c1 r(3)] show ?thesis
      by simp
  qed
  have hard: "update_srs d today u q dificil =
        Inr (None, d\<lparr>progress := (progress d)((u, q) \<mapsto>
          \<lparr>due_date = today + 1, interval = word_of_int 1,
           aciertos = word_of_int c, fallos = word_of_int (f + 1)\<rparr>)\<rparr>)
      \<and> loaded_state (d\<lparr>progress := (progress d)((u, q) \<mapsto>
          \<lparr>due_date = today + 1, interval = word_of_int 1,
           aciertos = word_of_int c, fallos = word_of_int (f + 1)\<rparr>)\<rparr>) u q =
          (1, c, f + 1)"
    if h: "is_date (today + 1)" "f + 1 < 2 ^ 63"
  proof -
    from r(3) h(2) have f1: "sqlite_int (f + 1)"
      by (simp add: sqlite_int_def)
    from assms(1) h(1) have i1: "sqlite_int 1"
      by (rule is_date_sqlite_int)
    have "update_srs d today u q dificil =
        Inr (None, d\<lparr>progress := (progress d)((u, q) \<mapsto>
          \<lparr>due_date = today + 1, interval = word_of_int 1,
           aciertos = word_of_int c, fallos = word_of_int (f + 1)\<rparr>)\<rparr>)"
      using h(1) f1 r(2)
      by (intro update_srs_ok [OF assms]) (simp_all add: difficulty_distinct[symmetric])
    with loaded_state_written [OF i1 r(2) f1] show ?thesis
      by simp
  qed
  from easy medium hard show ?thesis
    unfolding Let_def by blast
qed

theorem update_srs_table_witness:
  "is_date 739930 \<and> loaded_state db_seen ''ana'' 1 = (9, 1, 0)
   \<and> is_date (739930 + (9 * 2 + 7)) \<and> is_date (739930 + (9 + 3)) \<and> is_date (739930 + 1)
   \<and> (1::int) + 1 < 2 ^ 63 \<and> (0::int) + 1 < 2 ^ 63
   \<and> update_srs db_seen 739930 ''ana'' 1 facil =
        Inr (None, db_seen\<lparr>progress := (progress db_seen)((''ana'', 1) \<mapsto>
          \<lparr>due_date = 739955, interval = 25, aciertos = 2, fallos = 0\<rparr>)\<rparr>)
   \<and> update_srs db_seen 739930 ''ana'' 1 medio =
        Inr (None, db_seen\<lparr>progress := (progress db_seen)((''ana'', 1) \<mapsto>
          \<lparr>due_date = 739942, interval = 12, aciertos = 2, fallos = 0\<rparr>)\<rparr>)
   \<and> update_srs db_seen 739930 ''ana'' 1 dificil =
        Inr (None, db_seen\<lparr>progress := (progress db_seen)((''ana'', 1) \<mapsto>
          \<lparr>due_date = 739931, interval = 1, aciertos = 1, fallos = 1\<rparr>)\<rparr>)"
proof -
  have h1: "is_date 739930"
    by (simp add: is_date_def date_min_def date_max_def)
  have h2: "loaded_state db_seen ''ana'' 1 = (9, 1, 0)"
    by (simp add: loaded_state_def sql_select_progress_def db_seen_def)
  have h3: "is_date (739930 + (9 * 2 + 7))" "is_date (739930 + (9 + 3))" "is_date (739930 + 1)"
    by (simp_all add: is_date_def date_min_def date_max_def)
  show ?thesis
    using update_srs_table [OF h1 h2] h1 h2 h3 by (simp add: Let_def)
qed

text \<open>
  Claim C1 as stated fails on a state with \<open>i \<ge> 1\<close>: after eighteen "f\'acil" answers the
  interval is 2097145 (\<open>db_18\<close>, reached by \<open>db_18_reachable\<close>), and on 2026-11-03 the
  next "f\'acil" answer asks for a due date 4194297 days ahead, past 9999-12-31. The date
  addition raises OverflowError and nothing is written, where the claim has interval
  4194297 persisted. (A count of \<open>2 ^ 63 - 1\<close> fails in the same way at the bind:
  \<open>update_srs_count_overflow\<close>.)
\<close>

theorem update_srs_table_counterexample:
  "is_date 739923 \<and> loaded_state db_18 ''ana'' 1 = (2097145, 18, 0) \<and> (1::int) \<le> 2097145
   \<and> update_srs db_18 739923 ''ana'' 1 facil = Inl OverflowError
   \<and> update_srs db_18 739923 ''ana'' 1 facil \<noteq>
        Inr (None, db_18\<lparr>progress := (progress db_18)((''ana'', 1) \<mapsto>
          \<lparr>due_date = 739923 + (2097145 * 2 + 7), interval = 2097145 * 2 + 7,
           aciertos = 18 + 1, fallos = 0\<rparr>)\<rparr>)"
proof -
  have h2: "loaded_state db_18 ''ana'' 1 = (2097145, 18, 0)"
    by (simp add: loaded_state_def sql_select_progress_def db_18_def)
  have "update_srs db_18 739923 ''ana'' 1 facil = Inl OverflowError"
    by (rule update_srs_overflow [OF h2, where i' = 4194297 and c' = 19 and f' = 0])
       (simp_all add: is_date_def date_min_def date_max_def)
  with h2 show ?thesis
    by (simp add: is_date_def date_min_def date_max_def)
qed

text \<open>
  Claim C6, as amended. For a pair with no progress row the rule is applied to interval 1
  and counts 0 and 0, and a row for the pair is inserted: the first "f\'acil" answer gives
  interval 9 with one correct answer, the first "medio" interval 4 with one correct
  answer, the first "dif\'icil" interval 1 with one incorrect answer; the due date is the
  current date plus the interval and every other row is untouched. Each of the three
  holds whenever its own due date is a representable date, that is not after 9999-12-31.
\<close>

theorem update_srs_first_answer:
  assumes "progress d (u, q) = None" and "is_date today"
  shows "(is_date (today + 9) \<longrightarrow>
            update_srs d today u q facil =
              Inr (None, d\<lparr>progress := (progress d)((u, q) \<mapsto>
                \<lparr>due_date = today + 9, interval = 9, aciertos = 1, fallos = 0\<rparr>)\<rparr>))
       \<and> (is_date (today + 4) \<longrightarrow>
            update_srs d today u q medio =
              Inr (None, d\<lparr>progress := (progress d)((u, q) \<mapsto>
                \<lparr>due_date = today + 4, interval = 4, aciertos = 1, fallos = 0\<rparr>)\<rparr>))
       \<and> (is_date (today + 1) \<longrightarrow>
            update_srs d today u q dificil =
              Inr (None, d\<lparr>progress := (progress d)((u, q) \<mapsto>
                \<lparr>due_date = today + 1, interval = 1, aciertos = 0, fallos = 1\<rparr>)\<rparr>))"
proof -
  from assms(1) have ls: "loaded_state d u q = (1, 0, 0)"
    by (simp add: loaded_state_def sql_select_progress_def)
  have easy: "update_srs d today u q facil =
      Inr (None, d\<lparr>progress := (progress d)((u, q) \<mapsto>
        \<lparr>due_date = today + 9, interval = 9, aciertos = 1, fallos = 0\<rparr>)\<rparr>)"
    if "is_date (today + 9)"
  proof -
    from that have "update_srs d today u q facil =
        Inr (None, d\<lparr>progress := (progress d)((u, q) \<mapsto>
          \<lparr>due_date = today + 9, interval = word_of_int 9, aciertos = word_of_int 1,
           fallos = word_of_int 0\<rparr>)\<rparr>)"
      by (intro update_srs_ok [OF assms(2) ls]) (simp_all add: sqlite_int_def)
    then show ?thesis
      by simp
  qed
  have medium: "update_srs d today u q medio =
      Inr (None, d\<lparr>progress := (progress d)((u, q) \<mapsto>
        \<lparr>due_date = today + 4, interval = 4, aciertos = 1, fallos = 0\<rparr>)\<rparr>)"
    if "is_date (today + 4)"
  proof -
    from that have "update_srs d today u q medio =
        Inr (None, d\<lparr>progress := (progress d)((u, q) \<mapsto>
          \<lparr>due_date = today + 4, interval = word_of_int 4, aciertos = word_of_int 1,
           fallos = word_of_int 0\<rparr>)\<rparr>)"
      by (intro update_srs_ok [OF assms(2) ls])
         (simp_all add: sqlite_int_def difficulty_distinct[symmetric])
    then show ?thesis
      by simp
  qed
  have hard: "update_srs d today u q dificil =
      Inr (None, d\<lparr>progress := (progress d)((u, q) \<mapsto>
        \<lparr>due_date = today + 1, interval = 1, aciertos = 0, fallos = 1\<rparr>)\<rparr>)"
    if "is_date (today + 1)"
  proof -
    from that have "update_srs d today u q dificil =
        Inr (None, d\<lparr>progress := (progress d)((u, q) \<mapsto>
          \<lparr>due_date = today + 1, interval = word_of_int 1, aciertos = word_of_int 0,
           fallos = word_of_int 1\<rparr>)\<rparr>)"
      by (intro update_srs_ok [OF assms(2) ls])
         (simp_all add: sqlite_int_def difficulty_distinct[symmetric])
    then show ?thesis
      by simp
  qed
  from easy medium hard show ?thesis
    by blast
qed

theorem update_srs_first_answer_witness:
  "progress db_fresh (''admin'', 1) = None \<and> is_date 739923
   \<and> is_date (739923 + 9) \<and> is_date (739923 + 4) \<and> is_date (739923 + 1)
   \<and> update_srs db_fresh 739923 ''admin'' 1 facil =
        Inr (None, db_fresh\<lparr>progress := [(''admin'', 1) \<mapsto>
          \<lparr>due_date = 739932, interval = 9, aciertos = 1, fallos = 0\<rparr>]\<rparr>)
   \<and> update_srs db_fresh 739923 ''admin'' 1 medio =
        Inr (None, db_fresh\<lparr>progress := [(''admin'', 1) \<mapsto>
          \<lparr>due_date = 739927, interval = 4, aciertos = 1, fallos = 0\<rparr>]\<rparr>)
   \<and> update_srs db_fresh 739923 ''admin'' 1 dificil =
        Inr (None, db_fresh\<lparr>progress := [(''admin'', 1) \<mapsto>
          \<lparr>due_date = 739924, interval = 1, aciertos = 0, fallos = 1\<rparr>]\<rparr>)"
proof -
  have h1: "progress db_fresh (''admin'', 1) = None"
    by (simp add: db_fresh_def)
  have h2: "is_date 739923"
    and h3: "is_date (739923 + 9)" "is_date (739923 + 4)" "is_date (739923 + 1)"
    by (simp_all add: is_date_def date_min_def date_max_def)
  have p: "progress db_fresh = Map.empty"
    by (simp add: db_fresh_def)
  show ?thesis
    using update_srs_first_answer [OF h1 h2] h1 h2 h3 by (simp add: p)
qed

text \<open>
  Claim C6 as stated fails for a pair without a row when the current date is 9999-12-23,
  day 3652051: the first "f\'acil" answer asks for a due date nine days ahead, after
  9999-12-31; the call raises OverflowError and no row is inserted, where the claim has
  a row with interval 9. On that day "medio" and "dif\'icil" still succeed.
\<close>

theorem update_srs_first_answer_counterexample:
  "progress db_fresh (''admin'', 1) = None \<and> is_date 3652051
   \<and> update_srs db_fresh 3652051 ''admin'' 1 facil = Inl OverflowError
   \<and> update_srs db_fresh 3652051 ''admin'' 1 medio =
        Inr (None, db_fresh\<lparr>progress := [(''admin'', 1) \<mapsto>
          \<lparr>due_date = 3652055, interval = 4, aciertos = 1, fallos = 0\<rparr>]\<rparr>)"
proof -
  have h1: "progress db_fresh (''admin'', 1) = None"
    by (simp add: db_fresh_def)
  then have l: "loaded_state db_fresh ''admin'' 1 = (1, 0, 0)"
    by (simp add: loaded_state_def sql_select_progress_def)
  have t: "is_date 3652051"
    by (simp add: is_date_def date_min_def date_max_def)
  have e: "update_srs db_fresh 3652051 ''admin'' 1 facil = Inl OverflowError"
    by (rule update_srs_overflow [OF l, where i' = 9 and c' = 1 and f' = 0])
       (simp_all add: is_date_def date_min_def date_max_def)
  have "update_srs db_fresh 3652051 ''admin'' 1 medio =
      Inr (None, db_fresh\<lparr>progress := (progress db_fresh)((''admin'', 1) \<mapsto>
        \<lparr>due_date = 3652051 + 4, interval = word_of_int 4, aciertos = word_of_int 1,
         fallos = word_of_int 0\<rparr>)\<rparr>)"
    by (intro update_srs_ok [OF t l])
       (simp_all add: difficulty_distinct[symmetric] sqlite_int_def is_date_def
          date_min_def date_max_def)
  then have m: "update_srs db_fresh 3652051 ''admin'' 1 medio =
      Inr (None, db_fresh\<lparr>progress := [(''admin'', 1) \<mapsto>
        \<lparr>due_date = 3652055, interval = 4, aciertos = 1, fallos = 0\<rparr>]\<rparr>)"
    by (simp add: db_fresh_def)
  from h1 t e m show ?thesis
    by simp
qed

text \<open>
  Claim C5, as amended. Two "f\'acil" answers in sequence for one pair, on current dates
  \<open>today1\<close> and \<open>today2\<close>: the first persists the interval \<open>i * 2 + 7\<close> computed from the
  loaded or defaulted state and the correct count plus one, the second persists the
  interval computed from the one the first persisted and the correct count plus two;
  whenever both due dates are representable dates and the final count \<open>c + 2\<close> is below
  \<open>2 ^ 63\<close>. After each call the row reads back as these numbers. From interval 1 the
  intervals are 9 and then 25.
\<close>

theorem update_srs_easy_twice:
  assumes "is_date today1" and "is_date today2"
    and "loaded_state d u q = (i, c, f)"
    and "is_date (today1 + (i * 2 + 7))"
    and "is_date (today2 + ((i * 2 + 7) * 2 + 7))"
    and "c + 2 < 2 ^ 63"
  shows "\<exists>d1 d2. update_srs d today1 u q facil = Inr (None, d1)
           \<and> progress d1 (u, q) =
               Some \<lparr>due_date = today1 + (i * 2 + 7), interval = word_of_int (i * 2 + 7),
                     aciertos = word_of_int (c + 1), fallos = word_of_int f\<rparr>
           \<and> loaded_state d1 u q = (i * 2 + 7, c + 1, f)
           \<and> update_srs d1 today2 u q facil = Inr (None, d2)
           \<and> progress d2 (u, q) =
               Some \<lparr>due_date = today2 + ((i * 2 + 7) * 2 + 7),
                     interval = word_of_int ((i * 2 + 7) * 2 + 7),
                     aciertos = word_of_int (c + 2), fallos = word_of_int f\<rparr>
           \<and> loaded_state d2 u q = ((i * 2 + 7) * 2 + 7, c + 2, f)"
proof -
  note r = loaded_state_sqlite_int [OF assms(3)]
  from r(2) assms(6) have c1: "sqlite_int (c + 1)" and c2: "sqlite_int (c + 1 + 1)"
    by (simp_all add: sqlite_int_def)
  from assms(1,4) have i1: "sqlite_int (i * 2 + 7)"
    by (rule is_date_sqlite_int)
  from assms(2,5) have i2: "sqlite_int ((i * 2 + 7) * 2 + 7)"
    by (rule is_date_sqlite_int)
  define r1 where "r1 = \<lparr>due_date = today1 + (i * 2 + 7),
    interval = word_of_int (i * 2 + 7), aciertos = word_of_int (c + 1),
    fallos = word_of_int f\<rparr>"
  define d1 where "d1 = d\<lparr>progress := (progress d)((u, q) \<mapsto> r1)\<rparr>"
  define r2 where "r2 = \<lparr>due_date = today2 + ((i * 2 + 7) * 2 + 7),
    interval = word_of_int ((i * 2 + 7) * 2 + 7), aciertos = word_of_int (c + 1 + 1),
    fallos = word_of_int f\<rparr>"
  define d2 where "d2 = d1\<lparr>progress := (progress d1)((u, q) \<mapsto> r2)\<rparr>"
  have s1: "update_srs d today1 u q facil = Inr (None, d1)"
    unfolding d1_def r1_def using assms(4) c1 r(3)
    by (intro update_srs_ok [OF assms(1) assms(3)]) simp_all
  have p1: "progress d1 (u, q) = Some r1"
    by (simp add: d1_def)
  have ls1: "loaded_state d1 u q = (i * 2 + 7, c + 1, f)"
    unfolding d1_def r1_def by (rule loaded_state_written [OF i1 c1 r(3)])
  have s2: "update_srs d1 today2 u q facil = Inr (None, d2)"
    unfolding d2_def r2_def using assms(5) c2 r(3)
    by (intro update_srs_ok [OF assms(2) ls1]) simp_all
  have p2: "progress d2 (u, q) = Some r2"
    by (simp add: d2_def)
  have ls2: "loaded_state d2 u q = ((i * 2 + 7) * 2 + 7, c + 1 + 1, f)"
    unfolding d2_def r2_def by (rule loaded_state_written [OF i2 c2 r(3)])
  from s1 p1 ls1 s2 p2 ls2 show ?thesis
    unfolding r1_def r2_def by (intro exI [of _ d1] exI [of _ d2]) simp
qed

theorem update_srs_easy_twice_witness:
  "is_date 739923 \<and> is_date 739932 \<and> loaded_state db_fresh ''ana'' 1 = (1, 0, 0)
   \<and> is_date (739923 + (1 * 2 + 7)) \<and> is_date (739932 + ((1 * 2 + 7) * 2 + 7))
   \<and> (0::int) + 2 < 2 ^ 63
   \<and> update_srs db_fresh 739923 ''ana'' 1 facil =
        Inr (None, db_fresh\<lparr>progress := [(''ana'', 1) \<mapsto>
          \<lparr>due_date = 739932, interval = 9, aciertos = 1, fallos = 0\<rparr>]\<rparr>)
   \<and> update_srs (db_fresh\<lparr>progress := [(''ana'', 1) \<mapsto>
          \<lparr>due_date = 739932, interval = 9, aciertos = 1, fallos = 0\<rparr>]\<rparr>)
        739932 ''ana'' 1 facil =
        Inr (None, db_fresh\<lparr>progress := [(''ana'', 1) \<mapsto>
          \<lparr>due_date = 739957, interval = 25, aciertos = 2, fallos = 0\<rparr>]\<rparr>)"
proof -
  have h1: "is_date 739923" and h2: "is_date 739932"
    and h4: "is_date (739923 + (1 * 2 + 7))"
    and h5: "is_date (739932 + ((1 * 2 + 7) * 2 + 7))"
    by (simp_all add: is_date_def date_min_def date_max_def)
  have h3: "loaded_state db_fresh ''ana'' 1 = (1, 0, 0)"
    by (simp add: loaded_state_def sql_select_progress_def db_fresh_def)
  have h6: "(0::int) + 2 < 2 ^ 63"
    by simp
  have p: "progress db_fresh = Map.empty"
    by (simp add: db_fresh_def)
  from update_srs_easy_twice [OF h1 h2 h3 h4 h5 h6]
  obtain d1 d2 where s1: "update_srs db_fresh 739923 ''ana'' 1 facil = Inr (None, d1)"
    and s2: "update_srs d1 739932 ''ana'' 1 facil = Inr (None, d2)"
    by blast
  have e1: "update_srs db_fresh 739923 ''ana'' 1 facil =
      Inr (None, db_fresh\<lparr>progress := [(''ana'', 1) \<mapsto>
        \<lparr>due_date = 739932, interval = 9, aciertos = 1, fallos = 0\<rparr>]\<rparr>)"
    using update_srs_ok [OF h1 h3, of facil 9 1 0] h4 by (simp add: p sqlite_int_def)
  with s1 have d1: "d1 = db_fresh\<lparr>progress := [(''ana'', 1) \<mapsto>
        \<lparr>due_date = 739932, interval = 9, aciertos = 1, fallos = 0\<rparr>]\<rparr>"
    by simp
  have ls1: "loaded_state d1 ''ana'' 1 = (9, 1, 0)"
    by (simp add: d1 loaded_state_def sql_select_progress_def)
  have "update_srs d1 739932 ''ana'' 1 facil =
      Inr (None, d1\<lparr>progress := (progress d1)((''ana'', 1) \<mapsto>
        \<lparr>due_date = 739932 + 25, interval = word_of_int 25, aciertos = word_of_int 2,
         fallos = word_of_int 0\<rparr>)\<rparr>)"
    using h5 by (intro update_srs_ok [OF h2 ls1]) (simp_all add: sqlite_int_def)
  then have e2: "update_srs d1 739932 ''ana'' 1 facil =
      Inr (None, db_fresh\<lparr>progress := [(''ana'', 1) \<mapsto>
        \<lparr>due_date = 739957, interval = 25, aciertos = 2, fallos = 0\<rparr>]\<rparr>)"
    by (simp add: d1)
  from h1 h2 h3 h4 h5 e1 e2 show ?thesis
    unfolding d1 by simp
qed

text \<open>
  Claim C5 as stated fails on a pair whose persisted interval is 1048569, the state after
  seventeen "f\'acil" answers (\<open>db_17\<close>, reached by \<open>db_17_reachable\<close>). On 2026-11-03 the
  first of two further "f\'acil" answers persists interval 2097145 and correct count 18;
  the second asks for a due date 4194297 days ahead, raises OverflowError and writes
  nothing, so the correct count has grown by one, not two, and no compounded interval is
  persisted.
\<close>

theorem update_srs_easy_twice_counterexample:
  "loaded_state db_17 ''ana'' 1 = (1048569, 17, 0)
   \<and> update_srs db_17 739923 ''ana'' 1 facil = Inr (None, db_18)
   \<and> update_srs db_18 739923 ''ana'' 1 facil = Inl OverflowError
   \<and> progress db_18 (''ana'', 1) =
       Some \<lparr>due_date = 2837068, interval = 2097145, aciertos = 18, fallos = 0\<rparr>"
proof -
  have t: "is_date 739923"
    by (simp add: is_date_def date_min_def date_max_def)
  have l17: "loaded_state db_17 ''ana'' 1 = (1048569, 17, 0)"
    by (simp add: loaded_state_def sql_select_progress_def db_17_def)
  have l18: "loaded_state db_18 ''ana'' 1 = (2097145, 18, 0)"
    by (simp add: loaded_state_def sql_select_progress_def db_18_def)
  have "update_srs db_17 739923 ''ana'' 1 facil =
      Inr (None, db_17\<lparr>progress := (progress db_17)((''ana'', 1) \<mapsto>
        \<lparr>due_date = 739923 + 2097145, interval = word_of_int 2097145,
         aciertos = word_of_int 18, fallos = word_of_int 0\<rparr>)\<rparr>)"
    by (intro update_srs_ok [OF t l17])
       (simp_all add: is_date_def date_min_def date_max_def sqlite_int_def)
  then have s1: "update_srs db_17 739923 ''ana'' 1 facil = Inr (None, db_18)"
    by (simp add: db_17_def db_18_def)
  have s2: "update_srs db_18 739923 ''ana'' 1 facil = Inl OverflowError"
    by (rule update_srs_overflow [OF l18, where i' = 4194297 and c' = 19 and f' = 0])
       (simp_all add: is_date_def date_min_def date_max_def)
  from l17 s1 s2 show ?thesis
    by (simp add: db_18_def)
qed

text \<open>
  Claim C3, as amended. A difficulty other than the three literals is not rejected: the
  interval and both counts stay as loaded, or 1, 0 and 0 for a pair without a row, and
  the upsert still runs. It writes the due date \<open>today\<close> plus that interval, and inserts
  the row when the pair had none; this whenever that due date is a representable date.
\<close>

theorem update_srs_other_difficulty:
  assumes "difficulty \<notin> {facil, medio, dificil}" and "is_date today"
    and "loaded_state d u q = (i, c, f)" and "is_date (today + i)"
  shows "update_srs d today u q difficulty =
           Inr (None, d\<lparr>progress := (progress d)((u, q) \<mapsto>
             \<lparr>due_date = today + i, interval = word_of_int i, aciertos = word_of_int c,
              fallos = word_of_int f\<rparr>)\<rparr>)"
  using assms(1,4) loaded_state_sqlite_int [OF assms(3)]
  by (intro update_srs_ok [OF assms(2,3)]) simp_all

theorem update_srs_other_difficulty_witness:
  "''imposible'' \<notin> {facil, medio, dificil} \<and> is_date 739930
   \<and> loaded_state db_seen ''ana'' 1 = (9, 1, 0) \<and> is_date (739930 + 9)
   \<and> update_srs db_seen 739930 ''ana'' 1 ''imposible'' =
        Inr (None, db_seen\<lparr>progress := (progress db_seen)((''ana'', 1) \<mapsto>
          \<lparr>due_date = 739939, interval = 9, aciertos = 1, fallos = 0\<rparr>)\<rparr>)"
proof -
  have h1: "''imposible'' \<notin> {facil, medio, dificil}"
    by (simp add: facil_def medio_def dificil_def)
  have h2: "is_date 739930" and h4: "is_date (739930 + 9)"
    by (simp_all add: is_date_def date_min_def date_max_def)
  have h3: "loaded_state db_seen ''ana'' 1 = (9, 1, 0)"
    by (simp add: loaded_state_def sql_select_progress_def db_seen_def)
  show ?thesis
    using update_srs_other_difficulty [OF h1 h2 h3 h4] h1 h2 h3 h4 by simp
qed

text \<open>
  Claim C3 as stated fails. The difficulty "imposible" is none of the three. Ana's row
  for question 1 is due on day 739932; a call with that difficulty on day 739940 ends
  normally and leaves the row due on day 739949. For admin, who has no row for question
  1, the same call inserts one. In both cases the persisted record is not what it was
  before the call.
\<close>

theorem update_srs_other_difficulty_counterexample:
  "''imposible'' \<noteq> facil \<and> ''imposible'' \<noteq> medio \<and> ''imposible'' \<noteq> dificil
   \<and> progress db_seen (''ana'', 1) =
        Some \<lparr>due_date = 739932, interval = 9, aciertos = 1, fallos = 0\<rparr>
   \<and> update_srs db_seen 739940 ''ana'' 1 ''imposible'' =
        Inr (None, db_seen\<lparr>progress := (progress db_seen)((''ana'', 1) \<mapsto>
          \<lparr>due_date = 739949, interval = 9, aciertos = 1, fallos = 0\<rparr>)\<rparr>)
   \<and> progress db_seen (''admin'', 1) = None
   \<and> update_srs db_seen 739940 ''admin'' 1 ''imposible'' =
        Inr (None, db_seen\<lparr>progress := (progress db_seen)((''admin'', 1) \<mapsto>
          \<lparr>due_date = 739941, interval = 1, aciertos = 0, fallos = 0\<rparr>)\<rparr>)"
proof -
  have h1: "''imposible'' \<noteq> facil" "''imposible'' \<noteq> medio" "''imposible'' \<noteq> dificil"
    by (simp_all add: facil_def medio_def dificil_def)
  have t: "is_date 739940"
    by (simp add: is_date_def date_min_def date_max_def)
  have p: "progress db_seen (''ana'', 1) =
      Some \<lparr>due_date = 739932, interval = 9, aciertos = 1, fallos = 0\<rparr>"
    "progress db_seen (''admin'', 1) = None"
    by (simp_all add: db_seen_def)
  then have l: "loaded_state db_seen ''ana'' 1 = (9, 1, 0)"
    "loaded_state db_seen ''admin'' 1 = (1, 0, 0)"
    by (simp_all add: loaded_state_def sql_select_progress_def)
  have "update_srs db_seen 739940 ''ana'' 1 ''imposible'' =
      Inr (None, db_seen\<lparr>progress := (progress db_seen)((''ana'', 1) \<mapsto>
        \<lparr>due_date = 739940 + 9, interval = word_of_int 9, aciertos = word_of_int 1,
         fallos = word_of_int 0\<rparr>)\<rparr>)"
    using h1 by (intro update_srs_ok [OF t l(1)])
      (simp_all add: is_date_def date_min_def date_max_def sqlite_int_def)
  then have s1: "update_srs db_seen 739940 ''ana'' 1 ''imposible'' =
      Inr (None, db_seen\<lparr>progress := (progress db_seen)((''ana'', 1) \<mapsto>
        \<lparr>due_date = 739949, interval = 9, aciertos = 1, fallos = 0\<rparr>)\<rparr>)"
    by simp
  have "update_srs db_seen 739940 ''admin'' 1 ''imposible'' =
      Inr (None, db_seen\<lparr>progress := (progress db_seen)((''admin'', 1) \<mapsto>
        \<lparr>due_date = 739940 + 1, interval = word_of_int 1, aciertos = word_of_int 0,
         fallos = word_of_int 0\<rparr>)\<rparr>)"
    using h1 by (intro update_srs_ok [OF t l(2)])
      (simp_all add: is_date_def date_min_def date_max_def sqlite_int_def)
  then have s2: "update_srs db_seen 739940 ''admin'' 1 ''imposible'' =
      Inr (None, db_seen\<lparr>progress := (progress db_seen)((''admin'', 1) \<mapsto>
        \<lparr>due_date = 739941, interval = 1, aciertos = 0, fallos = 0\<rparr>)\<rparr>)"
    by simp
  from h1 p s1 s2 show ?thesis
    by simp
qed

text \<open>
  Claim C7, as amended. A call of \<open>update_srs\<close> that completes returns \<open>None\<close>, for every
  user, question and difficulty. The updated record is not returned. It is persisted: the
  store after the call is the store before it with the row of the pair replaced by the
  updated record, whose interval and counts are those of the update rule applied to the
  loaded or defaulted state \<open>(i, c, f)\<close> (unchanged for a difficulty that is none of the
  three) and whose due date is the current date plus the new interval; the row reads
  back as these numbers.
\<close>

theorem update_srs_returns_none:
  assumes "update_srs d today u q difficulty = Inr (ret, d')"
    and "loaded_state d u q = (i, c, f)"
  shows "ret = None
       \<and> (\<exists>i' c' f'.
            (i', c', f') =
              (if difficulty = facil then (i * 2 + 7, c + 1, f)
               else if difficulty = medio then (i + 3, c + 1, f)
               else if difficulty = dificil then (1, c, f + 1)
               else (i, c, f))
            \<and> d' = d\<lparr>progress := (progress d)((u, q) \<mapsto>
                 \<lparr>due_date = today + i', interval = word_of_int i',
                  aciertos = word_of_int c', fallos = word_of_int f'\<rparr>)\<rparr>
            \<and> loaded_state d' u q = (i', c', f'))"
proof -
  obtain i' c' f' where st:
    "(if difficulty = facil then (i * 2 + 7, c + 1, f)
      else if difficulty = medio then (i + 3, c + 1, f)
      else if difficulty = dificil then (1, c, f + 1)
      else (i, c, f)) = (i', c', f')"
    by (metis prod_cases3)
  have ok: "is_date (today + i') \<and> sqlite_int c' \<and> sqlite_int f'"
  proof (rule ccontr)
    assume "\<not> (is_date (today + i') \<and> sqlite_int c' \<and> sqlite_int f')"
    then have "\<not> is_date (today + i') \<or> \<not> sqlite_int c' \<or> \<not> sqlite_int f'"
      by simp
    from update_srs_overflow [OF assms(2) st this] assms(1) show False
      by simp
  qed
  have run: "update_srs d today u q difficulty =
      (case timedelta i' of
         Inl e \<Rightarrow> Inl e
       | Inr delta \<Rightarrow>
           (case date_add today delta of
              Inl e \<Rightarrow> Inl e
            | Inr new_due_date \<Rightarrow>
                (case sqlite_bind i' of
                   Inl e \<Rightarrow> Inl e
                 | Inr iv \<Rightarrow>
                     Inr (None, d\<lparr>progress := (progress d)((u, q) \<mapsto>
                       \<lparr>due_date = new_due_date, interval = iv,
                        aciertos = word_of_int c', fallos = word_of_int f'\<rparr>)\<rparr>))))"
    unfolding update_srs_def Let_def assms(2) prod.case st
    using ok
    by (simp add: sql_upsert_progress_def sqlite_bind_def get_db_conn_def
          split: sum.splits)
  from run assms(1) have res: "ret = None"
    "d' = d\<lparr>progress := (progress d)((u, q) \<mapsto>
       \<lparr>due_date = today + i', interval = word_of_int i',
        aciertos = word_of_int c', fallos = word_of_int f'\<rparr>)\<rparr>"
    and iv: "sqlite_int i'"
    by (auto simp: timedelta_def date_add_def sqlite_bind_def split: if_splits)
  from ok iv have "loaded_state (d\<lparr>progress := (progress d)((u, q) \<mapsto>
       \<lparr>due_date = today + i', interval = word_of_int i',
        aciertos = word_of_int c', fallos = word_of_int f'\<rparr>)\<rparr>) u q = (i', c', f')"
    by (intro loaded_state_written) simp_all
  with res st show ?thesis
    by (intro conjI exI [of _ i'] exI [of _ c'] exI [of _ f']) simp_all
qed

theorem update_srs_returns_none_witness:
  "update_srs db_fresh 739923 ''admin'' 1 dificil =
     Inr (None, db_fresh\<lparr>progress := [(''admin'', 1) \<mapsto>
       \<lparr>due_date = 739924, interval = 1, aciertos = 0, fallos = 1\<rparr>]\<rparr>)
   \<and> loaded_state db_fresh ''admin'' 1 = (1, 0, 0)
   \<and> loaded_state (db_fresh\<lparr>progress := [(''admin'', 1) \<mapsto>
       \<lparr>due_date = 739924, interval = 1, aciertos = 0, fallos = 1\<rparr>]\<rparr>) ''admin'' 1 =
       (1, 0, 1)"
proof -
  have t: "is_date 739923"
    by (simp add: is_date_def date_min_def date_max_def)
  have l: "loaded_state db_fresh ''admin'' 1 = (1, 0, 0)"
    by (simp add: loaded_state_def sql_select_progress_def db_fresh_def)
  have "update_srs db_fresh 739923 ''admin'' 1 dificil =
      Inr (None, db_fresh\<lparr>progress := (progress db_fresh)((''admin'', 1) \<mapsto>
        \<lparr>due_date = 739923 + 1, interval = word_of_int 1, aciertos = word_of_int 0,
         fallos = word_of_int (0 + 1)\<rparr>)\<rparr>)"
    by (intro update_srs_ok [OF t l])
       (simp_all add: difficulty_distinct[symmetric] is_date_def date_min_def date_max_def
          sqlite_int_def)
  then have h: "update_srs db_fresh 739923 ''admin'' 1 dificil =
      Inr (None, db_fresh\<lparr>progress := [(''admin'', 1) \<mapsto>
        \<lparr>due_date = 739924, interval = 1, aciertos = 0, fallos = 1\<rparr>]\<rparr>)"
    by (simp add: db_fresh_def)
  from update_srs_returns_none [OF h l] h l show ?thesis
    by (auto simp: difficulty_distinct[symmetric])
qed

text \<open>
  Claim C7 as stated fails. Ana answers question 1 with "medio" on day 739932, from
  interval 9 and one correct answer. The call completes, the updated record (due on day
  739944, interval 12, two correct answers) is persisted, and the value returned is
  \<open>None\<close>, not that record.
\<close>

theorem update_srs_returns_none_counterexample:
  "update_srs db_seen 739932 ''ana'' 1 medio =
     Inr (None, db_seen\<lparr>progress := (progress db_seen)((''ana'', 1) \<mapsto>
       \<lparr>due_date = 739944, interval = 12, aciertos = 2, fallos = 0\<rparr>)\<rparr>)
   \<and> None \<noteq> Some \<lparr>due_date = 739944, interval = 12, aciertos = 2, fallos = 0\<rparr>"
proof -
  have t: "is_date 739932"
    by (simp add: is_date_def date_min_def date_max_def)
  have l: "loaded_state db_seen ''ana'' 1 = (9, 1, 0)"
    by (simp add: loaded_state_def sql_select_progress_def db_seen_def)
  have "update_srs db_seen 739932 ''ana'' 1 medio =
      Inr (None, db_seen\<lparr>progress := (progress db_seen)((''ana'', 1) \<mapsto>
        \<lparr>due_date = 739932 + (9 + 3), interval = word_of_int (9 + 3),
         aciertos = word_of_int (1 + 1), fallos = word_of_int 0\<rparr>)\<rparr>)"
    by (intro update_srs_ok [OF t l])
       (simp_all add: difficulty_distinct[symmetric] is_date_def date_min_def date_max_def
          sqlite_int_def)
  then show ?thesis
    by simp
qed

section \<open>Properties of the scheduler\<close>

lemma fetchone_random_mem: "fetchone_random r rows = Some x \<Longrightarrow> x \<in> set rows"
  by (auto simp: fetchone_random_def split: if_splits)

lemma fetchone_random_None: "fetchone_random r rows = None \<longleftrightarrow> rows = []"
  by (simp add: fetchone_random_def)

lemma set_due_ids:
  "q \<in> set (sql_select_due_ids d u today) \<longleftrightarrow>
     q \<in> q_id ` set (questions d) \<and> is_due d u today q"
  by (auto simp: sql_select_due_ids_def is_due_def split: option.splits)

lemma set_new_ids: "q \<in> set (sql_select_new_ids d u) \<longleftrightarrow> is_unseen d u q"
  by (auto simp: sql_select_new_ids_def is_unseen_def)

lemma due_not_unseen: "is_due d u today q \<Longrightarrow> \<not> is_unseen d u q"
  by (simp add: is_due_def is_unseen_def split: option.splits)

lemma due_ids_nonempty:
  "sql_select_due_ids d u today \<noteq> [] \<longleftrightarrow>
     (\<exists>q. q \<in> q_id ` set (questions d) \<and> is_due d u today q)"
proof -
  have "sql_select_due_ids d u today \<noteq> [] \<longleftrightarrow> (\<exists>q. q \<in> set (sql_select_due_ids d u today))"
    by (cases "sql_select_due_ids d u today") auto
  then show ?thesis
    by (simp only: set_due_ids)
qed

lemma new_ids_nonempty: "sql_select_new_ids d u \<noteq> [] \<longleftrightarrow> (\<exists>q. is_unseen d u q)"
proof -
  have "sql_select_new_ids d u \<noteq> [] \<longleftrightarrow> (\<exists>q. q \<in> set (sql_select_new_ids d u))"
    by (cases "sql_select_new_ids d u") auto
  then show ?thesis
    by (simp only: set_new_ids)
qed

lemma fetchone_random_Some: "rows \<noteq> [] \<Longrightarrow> \<exists>x. fetchone_random r rows = Some x \<and> x \<in> set rows"
  by (simp add: fetchone_random_def)

text \<open>
  Claim C2, as amended. In standard mode the call returns the identifier of a question
  of the question table that is due for the user (the user's review record for it has a
  due date on or before the current date) whenever there is such a question, and then
  never an unseen one; otherwise the identifier of a question without a review record
  for the user whenever there is one; otherwise \<open>None\<close>. This holds for every outcome of
  the random draws.
\<close>

theorem next_question_standard:
  "((\<exists>q. q \<in> q_id ` set (questions d) \<and> is_due d u today q) \<longrightarrow>
      (\<exists>q. fst (get_next_question_for_user d today rnd u False) = Some q
           \<and> q \<in> q_id ` set (questions d) \<and> is_due d u today q \<and> \<not> is_unseen d u q))
   \<and> ((\<nexists>q. q \<in> q_id ` set (questions d) \<and> is_due d u today q) \<and> (\<exists>q. is_unseen d u q) \<longrightarrow>
      (\<exists>q. fst (get_next_question_for_user d today rnd u False) = Some q
           \<and> is_unseen d u q))
   \<and> ((\<nexists>q. q \<in> q_id ` set (questions d) \<and> is_due d u today q) \<and> (\<nexists>q. is_unseen d u q) \<longrightarrow>
      fst (get_next_question_for_user d today rnd u False) = None)"
proof (intro conjI impI)
  assume "\<exists>q. q \<in> q_id ` set (questions d) \<and> is_due d u today q"
  then have "sql_select_due_ids d u today \<noteq> []"
    by (simp only: due_ids_nonempty)
  from fetchone_random_Some [OF this, of "fst rnd"]
  obtain q where q: "fetchone_random (fst rnd) (sql_select_due_ids d u today) = Some q"
    and "q \<in> set (sql_select_due_ids d u today)"
    by blast
  then have dq: "q \<in> q_id ` set (questions d) \<and> is_due d u today q"
    by (simp only: set_due_ids)
  then have "\<not> is_unseen d u q"
    using due_not_unseen [of d u today q] by simp
  moreover from q have "fst (get_next_question_for_user d today rnd u False) = Some q"
    by (simp add: get_next_question_for_user_def)
  ultimately show "\<exists>q. fst (get_next_question_for_user d today rnd u False) = Some q
      \<and> q \<in> q_id ` set (questions d) \<and> is_due d u today q \<and> \<not> is_unseen d u q"
    using dq by blast
next
  assume a: "(\<nexists>q. q \<in> q_id ` set (questions d) \<and> is_due d u today q)
    \<and> (\<exists>q. is_unseen d u q)"
  then have "sql_select_due_ids d u today = []"
    using due_ids_nonempty [of d u today] by blast
  then have due: "fetchone_random (fst rnd) (sql_select_due_ids d u today) = None"
    by (simp add: fetchone_random_None)
  from a have "sql_select_new_ids d u \<noteq> []"
    by (simp only: new_ids_nonempty)
  from fetchone_random_Some [OF this, of "snd rnd"]
  obtain q where q: "fetchone_random (snd rnd) (sql_select_new_ids d u) = Some q"
    and "q \<in> set (sql_select_new_ids d u)"
    by blast
  then have uq: "is_unseen d u q"
    by (simp only: set_new_ids)
  from q due have "fst (get_next_question_for_user d today rnd u False) = Some q"
    by (simp add: get_next_question_for_user_def)
  with uq show "\<exists>q. fst (get_next_question_for_user d today rnd u False) = Some q
      \<and> is_unseen d u q"
    by blast
next
  assume a: "(\<nexists>q. q \<in> q_id ` set (questions d) \<and> is_due d u today q)
    \<and> (\<nexists>q. is_unseen d u q)"
  then have "sql_select_due_ids d u today = []"
    using due_ids_nonempty [of d u today] by blast
  then have due: "fetchone_random (fst rnd) (sql_select_due_ids d u today) = None"
    by (simp add: fetchone_random_None)
  from a have "sql_select_new_ids d u = []"
    using new_ids_nonempty [of d u] by blast
  then have new: "fetchone_random (snd rnd) (sql_select_new_ids d u) = None"
    by (simp add: fetchone_random_None)
  from due new show "fst (get_next_question_for_user d today rnd u False) = None"
    by (simp add: get_next_question_for_user_def)
qed

lemma example_question_ids:
  "q_id ` set (questions db_two) = {1, 2}" "q_id ` set (questions db_seen) = {1}"
  by (simp_all add: db_two_def db_seen_def question1_def question2_def)

lemma example_progress:
  "progress db_two (''ana'', 1) =
     Some \<lparr>due_date = 739932, interval = 9, aciertos = 1, fallos = 0\<rparr>"
  "progress db_two (''ana'', 2) = None"
  "progress db_seen (''ana'', 1) =
     Some \<lparr>due_date = 739932, interval = 9, aciertos = 1, fallos = 0\<rparr>"
  by (simp_all add: db_two_def db_seen_def)

theorem next_question_standard_witness:
  "1 \<in> q_id ` set (questions db_two) \<and> is_due db_two ''ana'' 739940 1
   \<and> fst (get_next_question_for_user db_two 739940 (0, 0) ''ana'' False) = Some 1
   \<and> (\<nexists>q. q \<in> q_id ` set (questions db_two) \<and> is_due db_two ''ana'' 739923 q)
   \<and> is_unseen db_two ''ana'' 2
   \<and> fst (get_next_question_for_user db_two 739923 (0, 0) ''ana'' False) = Some 2
   \<and> (\<nexists>q. q \<in> q_id ` set (questions db_seen) \<and> is_due db_seen ''ana'' 739923 q)
   \<and> (\<nexists>q. is_unseen db_seen ''ana'' q)
   \<and> fst (get_next_question_for_user db_seen 739923 (0, 0) ''ana'' False) = None"
proof -
  have a: "1 \<in> q_id ` set (questions db_two) \<and> is_due db_two ''ana'' 739940 1"
    by (simp add: example_question_ids is_due_def example_progress)
  have b1: "\<nexists>q. q \<in> q_id ` set (questions db_two) \<and> is_due db_two ''ana'' 739923 q"
    by (auto simp add: example_question_ids is_due_def example_progress)
  have b2: "is_unseen db_two ''ana'' 2"
    by (simp add: example_question_ids is_unseen_def example_progress)
  have c1: "\<nexists>q. q \<in> q_id ` set (questions db_seen) \<and> is_due db_seen ''ana'' 739923 q"
    by (auto simp add: example_question_ids is_due_def example_progress)
  have c2: "\<nexists>q. is_unseen db_seen ''ana'' q"
    by (auto simp add: example_question_ids is_unseen_def example_progress)
  have id1: "q = 1"
    if "q \<in> q_id ` set (questions db_two) \<and> is_due db_two ''ana'' 739940 q" for q
    using that by (auto simp add: example_question_ids is_due_def example_progress)
  have id2: "q = 2" if "is_unseen db_two ''ana'' q" for q
    using that by (auto simp add: example_question_ids is_unseen_def example_progress)
  from next_question_standard [of db_two "''ana''" 739940 "(0, 0)"] a
  obtain q where "fst (get_next_question_for_user db_two 739940 (0, 0) ''ana'' False) = Some q"
    and "q \<in> q_id ` set (questions db_two) \<and> is_due db_two ''ana'' 739940 q"
    by blast
  with id1 have r1:
    "fst (get_next_question_for_user db_two 739940 (0, 0) ''ana'' False) = Some 1"
    by simp
  from next_question_standard [of db_two "''ana''" 739923 "(0, 0)"] b1 b2
  obtain q' where "fst (get_next_question_for_user db_two 739923 (0, 0) ''ana'' False) = Some q'"
    and "is_unseen db_two ''ana'' q'"
    by blast
  with id2 have r2:
    "fst (get_next_question_for_user db_two 739923 (0, 0) ''ana'' False) = Some 2"
    by simp
  from next_question_standard [of db_seen "''ana''" 739923 "(0, 0)"] c1 c2
  have r3: "fst (get_next_question_for_user db_seen 739923 (0, 0) ''ana'' False) = None"
    by blast
  from a b1 b2 c1 c2 r1 r2 r3 show ?thesis
    by simp
qed

lemma orphan_store:
  "questions (manage_questions_eliminar db_two 1) = [question2]"
  "progress (manage_questions_eliminar db_two 1) = progress db_two"
  "q_id question2 = 2"
  by (simp_all add: manage_questions_eliminar_def sql_delete_question_def get_db_conn_def
        db_two_def question1_def question2_def)

lemma orphan_due_record_every_draw:
  "fst (get_next_question_for_user (manage_questions_eliminar db_two 1) 739940 rnd
     ''ana'' False) = Some 2"
  by (simp add: get_next_question_for_user_def fetchone_random_def sql_select_due_ids_def
        sql_select_new_ids_def orphan_store example_progress)

text \<open>
  Claim C2 as stated fails. In \<open>db_two\<close> ana has a review record for question 1, due on
  day 739932, and has not seen question 2. After the "Eliminar" button has deleted
  question 1 that record is still in the store. On day 739940 ana therefore has a due
  review record and an unseen question, and the call returns the unseen question 2, for
  every draw (\<open>orphan_due_record_every_draw\<close>): the first query joins the progress rows
  with the question table, and the due record has no question left to join.
\<close>

theorem next_question_standard_counterexample:
  "is_due (manage_questions_eliminar db_two 1) ''ana'' 739940 1
   \<and> is_unseen (manage_questions_eliminar db_two 1) ''ana'' 2
   \<and> \<not> is_due (manage_questions_eliminar db_two 1) ''ana'' 739940 2
   \<and> fst (get_next_question_for_user (manage_questions_eliminar db_two 1) 739940 (0, 0)
        ''ana'' False) = Some 2"
  by (simp add: is_due_def is_unseen_def orphan_store example_progress
        orphan_due_record_every_draw)

text \<open>
  Claim C8. In practice mode the call returns the identifier of a row of the question
  table whenever the table is not empty, whatever the progress table holds, and it
  returns \<open>None\<close> exactly when the question table is empty.
\<close>

theorem next_question_practice:
  "(questions d \<noteq> [] \<longrightarrow>
      (\<exists>q \<in> q_id ` set (questions d).
         fst (get_next_question_for_user d today rnd u True) = Some q))
   \<and> (fst (get_next_question_for_user d today rnd u True) = None \<longleftrightarrow> questions d = [])
   \<and> fst (get_next_question_for_user (d\<lparr>progress := p'\<rparr>) today rnd u True) =
       fst (get_next_question_for_user d today rnd u True)"
proof (intro conjI impI)
  assume "questions d \<noteq> []"
  then have "sql_select_all_ids d \<noteq> []"
    by (simp add: sql_select_all_ids_def)
  from fetchone_random_Some [OF this, of "fst rnd"]
  obtain q where "fetchone_random (fst rnd) (sql_select_all_ids d) = Some q"
    and "q \<in> set (sql_select_all_ids d)"
    by blast
  then show "\<exists>q \<in> q_id ` set (questions d).
      fst (get_next_question_for_user d today rnd u True) = Some q"
    by (auto simp: get_next_question_for_user_def sql_select_all_ids_def)
next
  show "fst (get_next_question_for_user d today rnd u True) = None \<longleftrightarrow> questions d = []"
    by (simp add: get_next_question_for_user_def sql_select_all_ids_def
          fetchone_random_def)
next
  show "fst (get_next_question_for_user (d\<lparr>progress := p'\<rparr>) today rnd u True) =
      fst (get_next_question_for_user d today rnd u True)"
    by (simp add: get_next_question_for_user_def sql_select_all_ids_def
          split: option.splits)
qed

theorem next_question_practice_witness:
  "questions db_two \<noteq> []
   \<and> fst (get_next_question_for_user db_two 739923 (1, 0) ''ana'' True) = Some 2
   \<and> 2 \<in> q_id ` set (questions db_two)
   \<and> questions db_empty = []
   \<and> fst (get_next_question_for_user db_empty 739923 (1, 0) ''ana'' True) = None"
proof -
  have a: "questions db_two \<noteq> []" "questions db_empty = []"
    by (simp_all add: db_two_def db_empty_def)
  have b: "fst (get_next_question_for_user db_two 739923 (1, 0) ''ana'' True) = Some 2"
    by (simp add: get_next_question_for_user_def sql_select_all_ids_def
          fetchone_random_def db_two_def question1_def question2_def)
  from next_question_practice [of db_two 739923 "(1, 0)" "''ana''"] a(1)
  obtain q where "q \<in> q_id ` set (questions db_two)"
    and "fst (get_next_question_for_user db_two 739923 (1, 0) ''ana'' True) = Some q"
    by blast
  with b have c: "2 \<in> q_id ` set (questions db_two)"
    by simp
  from next_question_practice [of db_empty 739923 "(1, 0)" "''ana''"] a(2)
  have "fst (get_next_question_for_user db_empty 739923 (1, 0) ''ana'' True) = None"
    by simp
  with a b c show ?thesis
    by simp
qed

text \<open>
  Claim C9. In both modes the call leaves the store as it was: users, questions and
  progress rows are those it started from. So a later call sees the store the first call
  saw, and returns what it would have returned without the first call; two results
  differ only by the random draws.
\<close>

theorem next_question_read_only:
  "snd (get_next_question_for_user d today rnd u practice_mode) = d
   \<and> get_next_question_for_user
         (snd (get_next_question_for_user d today rnd u practice_mode))
         today rnd' u practice_mode =
       get_next_question_for_user d today rnd' u practice_mode"
proof -
  have "snd (get_next_question_for_user d today rnd u practice_mode) = d"
    by (simp add: get_next_question_for_user_def split: option.splits)
  then show ?thesis
    by simp
qed

text \<open>
  Claim C10. The practice branch reads the question table only: with the same question
  table and the same random draw, two callers get the same result, whatever their names,
  their progress rows and the current date. The candidates are the identifiers of all
  questions for both. Equal results for every draw give equal distributions.
\<close>

theorem practice_independent_of_user:
  "fst (get_next_question_for_user (d\<lparr>progress := p1\<rparr>) today1 rnd u1 True) =
     fst (get_next_question_for_user (d\<lparr>progress := p2\<rparr>) today2 rnd u2 True)
   \<and> fst (get_next_question_for_user d today1 rnd u1 True) =
       fetchone_random (fst rnd) (sql_select_all_ids d)"
  by (simp add: get_next_question_for_user_def sql_select_all_ids_def split: option.splits)

section \<open>Properties of question deletion\<close>

lemma eliminar_keeps_progress: "progress (manage_questions_eliminar d q) = progress d"
  by (simp add: manage_questions_eliminar_def sql_delete_question_def get_db_conn_def)

lemma eliminar_removes_question: "q \<notin> q_id ` set (questions (manage_questions_eliminar d q))"
  by (auto simp: manage_questions_eliminar_def sql_delete_question_def get_db_conn_def)

lemma delete_user_removes_progress:
  "u \<noteq> ''admin'' \<Longrightarrow> progress (snd (delete_user_from_db d u)) (u, q) = None"
  by (simp add: delete_user_from_db_def)

text \<open>
  Claim C4 fails on the code. Ana has a progress row for question 1. After the
  "Eliminar" button deletes question 1, the question is gone and ana's progress row for
  it is still in the store, unchanged: the connection never enables foreign keys, so the
  declared cascade does not run, and the handler has no DELETE on \<open>progress\<close> of its own,
  unlike \<open>delete_user_from_db\<close>.
\<close>

theorem eliminar_leaves_orphan_progress:
  "1 \<in> q_id ` set (questions db_seen)
   \<and> 1 \<notin> q_id ` set (questions (manage_questions_eliminar db_seen 1))
   \<and> progress (manage_questions_eliminar db_seen 1) (''ana'', 1) =
       Some \<lparr>due_date = 739932, interval = 9, aciertos = 1, fallos = 0\<rparr>"
  by (simp add: manage_questions_eliminar_def sql_delete_question_def get_db_conn_def
        db_seen_def question1_def)

end
